theory Spec2Isabelle
  imports Main
begin

section \<open>Data model\<close>

text \<open>
  The two source files belong to package \<open>schema\<close> (usecases/schema):
  \<^item> \<open>update_property.go\<close>: \<open>Manager.UpdatePropertyAddDataType\<close> and
    \<open>dataTypeAlreadyContained\<close>;
  \<^item> \<open>handler.go\<close>: the \<open>Handler\<close> with \<open>GetSchema\<close>, \<open>GetSchemaSkipAuth\<close>,
    \<open>UpdateShardStatus\<close> and \<open>JoinNode\<close>.

  A Go \<open>error\<close> return is an \<open>error option\<close>: \<open>None\<close> is \<open>nil\<close>. \<open>Errorf\<close> is an
  error built by \<open>fmt.Errorf\<close> with the formatted message; the other two constructors are
  the named not-found errors of the lookup helpers. A collaborator may return any error.
\<close>

datatype error =
    Errorf string
  | ErrNoSuchClass string
  | ErrNoSuchProperty string string

text \<open>
  \<open>models.Property\<close>, \<open>models.Class\<close> and \<open>models.Schema\<close> are declared outside the two
  source files. The records keep the fields the functions read or write: the name and
  the \<open>DataType\<close> slice of a property, the name and the property slice of a class, the
  class slice of a schema.
\<close>

record models_Property =
  Name :: string
  DataType :: "string list"

record models_Class =
  Class :: string
  Properties :: "models_Property list"

record models_Schema =
  Classes :: "models_Class list"

text \<open>\<open>schema.Schema\<close>: the field \<open>Objects\<close> is a pointer, \<open>None\<close> is \<open>nil\<close>.\<close>

record schema_Schema =
  Objects :: "models_Schema option"

text \<open>
  Every call the code makes on a collaborator, and every read of the manager's schema
  state, is recorded in a log, in the order the calls happen. \<open>'p\<close> is the type of
  \<open>*models.Principal\<close>, which the code only passes on to the authorizer.
\<close>

datatype 'p call =
    Authorize_call 'p string string
  | SchemaFor_call
  | saveSchema_call
  | migrator_UpdatePropertyAddDataType_call string string string
  | metaWriter_UpdateShardStatus_call string string string
  | metaWriter_Join_call string string bool
  | metaReader_ReadOnlySchema_call
  | clusterState_NodeHostname_call string

section \<open>update\_property.go\<close>

text \<open>
  \<^verbatim>\<open>
  func dataTypeAlreadyContained(haystack []string, needle string) bool {
      for _, hay := range haystack {
          if hay == needle { return true }
      }
      return false
  }
  \<close>
\<close>

fun dataTypeAlreadyContained :: "string list \<Rightarrow> string \<Rightarrow> bool" where
  "dataTypeAlreadyContained [] needle = False"
| "dataTypeAlreadyContained (hay # haystack) needle =
     (if hay = needle then True else dataTypeAlreadyContained haystack needle)"

text \<open>
  The lookup helpers return a pointer into the schema. A pointer to an element of a slice
  is modelled by the position of the element together with the element found there;
  \<open>lookup_ptr\<close> is the loop \<open>for _, x := range xs { if P x { return x } }\<close>.
\<close>

fun lookup_ptr :: "('a \<Rightarrow> bool) \<Rightarrow> 'a list \<Rightarrow> (nat \<times> 'a) option" where
  "lookup_ptr P [] = None"
| "lookup_ptr P (x # xs) =
     (if P x then Some (0, x)
      else (case lookup_ptr P xs of None \<Rightarrow> None | Some (i, y) \<Rightarrow> Some (Suc i, y)))"

text \<open>
  Modelled from the spec: \<open>schema.GetClassByName\<close> and \<open>schema.GetPropertyByName\<close> (package
  entities/schema) are not among the source files. The spec says: fetch class by name
  (exact match; class-not-found is a named error, not found silently), fetch property
  by name. The first element with the given name is returned.
\<close>

definition GetClassByName :: "models_Schema \<Rightarrow> string \<Rightarrow> error + (nat \<times> models_Class)" where
  "GetClassByName s className =
     (case lookup_ptr (\<lambda>c. Class c = className) (Classes s) of
        None \<Rightarrow> Inl (ErrNoSuchClass className)
      | Some ptr \<Rightarrow> Inr ptr)"

definition GetPropertyByName :: "models_Class \<Rightarrow> string \<Rightarrow> error + (nat \<times> models_Property)" where
  "GetPropertyByName c propName =
     (case lookup_ptr (\<lambda>p. Name p = propName) (Properties c) of
        None \<Rightarrow> Inl (ErrNoSuchProperty propName (Class c))
      | Some ptr \<Rightarrow> Inr ptr)"

text \<open>
  The assignment \<open>prop.DataType = append(prop.DataType, newDataType)\<close> goes through the
  pointers \<open>class\<close> and \<open>prop\<close> into the schema that \<open>m.state.SchemaFor()\<close> returned, which
  is the manager's own schema: property \<open>pi\<close> of class \<open>ci\<close> gets the new slice.
\<close>

definition assign_DataType :: "models_Schema \<Rightarrow> nat \<Rightarrow> nat \<Rightarrow> string list \<Rightarrow> models_Schema" where
  "assign_DataType s ci pi dt =
     s\<lparr>Classes := (Classes s)[ci :=
        (Classes s ! ci)\<lparr>Properties := (Properties (Classes s ! ci))[pi :=
           (Properties (Classes s ! ci) ! pi)\<lparr>DataType := dt\<rparr>]\<rparr>]\<rparr>"

text \<open>
  The manager. \<open>state\<close> is the schema that \<open>m.state.SchemaFor()\<close> points to. The
  authorizer, the migrator and the method \<open>saveSchema\<close> (defined outside the source
  files) are parameters: the authorizer answers for a principal, a verb and a resource;
  \<open>saveSchema\<close> answers for the schema it is asked to save and leaves it as it is; the
  migrator answers for class name, property name and data type. \<open>calls\<close> is the log.
\<close>

text \<open>
  \<^verbatim>\<open>
  func (m *Manager) UpdatePropertyAddDataType(ctx context.Context, principal *models.Principal,
      className string, propName string, newDataType string) error {
      err := m.authorizer.Authorize(principal, "update", "schema/objects")
      if err != nil { return err }
      semanticSchema := m.state.SchemaFor()
      class, err := schema.GetClassByName(semanticSchema, className)
      if err != nil { return err }
      prop, err := schema.GetPropertyByName(class, propName)
      if err != nil { return err }
      if dataTypeAlreadyContained(prop.DataType, newDataType) { return nil }
      prop.DataType = append(prop.DataType, newDataType)
      err = m.saveSchema(ctx)
      if err != nil { return nil }
      return m.migrator.UpdatePropertyAddDataType(ctx, className, propName, newDataType)
  }
  \<close>
\<close>

record 'p Manager =
  authorizer :: "'p \<Rightarrow> string \<Rightarrow> string \<Rightarrow> error option"
  state :: models_Schema
  saveSchema :: "models_Schema \<Rightarrow> error option"
  migrator :: "string \<Rightarrow> string \<Rightarrow> string \<Rightarrow> error option"
  calls :: "'p call list"

definition logged :: "'p call \<Rightarrow> 'p Manager \<Rightarrow> 'p Manager" where
  "logged c m = m\<lparr>calls := calls m @ [c]\<rparr>"

definition UpdatePropertyAddDataType ::
  "'p Manager \<Rightarrow> 'p \<Rightarrow> string \<Rightarrow> string \<Rightarrow> string \<Rightarrow> error option \<times> 'p Manager" where
  "UpdatePropertyAddDataType m princ className propName newDataType =
     (let m1 = logged (Authorize_call princ ''update'' ''schema/objects'') m in
      (case authorizer m princ ''update'' ''schema/objects'' of
         Some err \<Rightarrow> (Some err, m1)
       | None \<Rightarrow>
           (let m2 = logged SchemaFor_call m1;
                semanticSchema = state m2
            in (case GetClassByName semanticSchema className of
                  Inl err \<Rightarrow> (Some err, m2)
                | Inr (ci, class) \<Rightarrow>
                    (case GetPropertyByName class propName of
                       Inl err \<Rightarrow> (Some err, m2)
                     | Inr (pi, prop) \<Rightarrow>
                         (if dataTypeAlreadyContained (DataType prop) newDataType
                          then (None, m2)
                          else
                            (let m3 = m2\<lparr>state := assign_DataType semanticSchema ci pi
                                                   (DataType prop @ [newDataType])\<rparr>;
                                 m4 = logged saveSchema_call m3
                             in (case saveSchema m4 (state m4) of
                                   Some err \<Rightarrow> (None, m4)
                                 | None \<Rightarrow>
                                     (migrator m4 className propName newDataType,
                                      logged (migrator_UpdatePropertyAddDataType_call
                                                className propName newDataType) m4)))))))))"

section \<open>handler.go\<close>

text \<open>
  The handler holds no state of its own. Its collaborators are parameters:
  \<open>Authorizer.Authorize\<close>, \<open>metaWriter.UpdateShardStatus\<close>, \<open>metaWriter.Join\<close>,
  \<open>metaReader.ReadOnlySchema\<close> and \<open>clusterState.NodeHostname\<close>. Each operation returns
  its result together with the log of the collaborator calls it made.
\<close>

record 'p Handler =
  Authorizer :: "'p \<Rightarrow> string \<Rightarrow> string \<Rightarrow> error option"
  metaWriter_UpdateShardStatus :: "string \<Rightarrow> string \<Rightarrow> string \<Rightarrow> error option"
  metaWriter_Join :: "string \<Rightarrow> string \<Rightarrow> bool \<Rightarrow> error option"
  metaReader_ReadOnlySchema :: models_Schema
  clusterState_NodeHostname :: "string \<Rightarrow> string \<times> bool"

definition getSchema :: "'p Handler \<Rightarrow> schema_Schema \<times> 'p call list" where
  "getSchema h =
     (let s = metaReader_ReadOnlySchema h
      in (\<lparr>Objects = Some s\<rparr>, [metaReader_ReadOnlySchema_call]))"

definition GetSchema :: "'p Handler \<Rightarrow> 'p \<Rightarrow> (schema_Schema \<times> error option) \<times> 'p call list" where
  "GetSchema h princ =
     (case Authorizer h princ ''list'' ''schema/*'' of
        Some err \<Rightarrow> ((\<lparr>Objects = None\<rparr>, Some err), [Authorize_call princ ''list'' ''schema/*''])
      | None \<Rightarrow>
          (case getSchema h of
             (s, cs) \<Rightarrow> ((s, None), Authorize_call princ ''list'' ''schema/*'' # cs)))"

definition GetSchemaSkipAuth :: "'p Handler \<Rightarrow> schema_Schema \<times> 'p call list" where
  "GetSchemaSkipAuth h = getSchema h"

text \<open>\<open>fmt.Sprintf("schema/%s/shards/%s", class, shard)\<close>\<close>

definition shard_resource :: "string \<Rightarrow> string \<Rightarrow> string" where
  "shard_resource class shard = ''schema/'' @ class @ ''/shards/'' @ shard"

definition UpdateShardStatus ::
  "'p Handler \<Rightarrow> 'p \<Rightarrow> string \<Rightarrow> string \<Rightarrow> string \<Rightarrow> error option \<times> 'p call list" where
  "UpdateShardStatus h princ class shard status =
     (case Authorizer h princ ''update'' (shard_resource class shard) of
        Some err \<Rightarrow> (Some err, [Authorize_call princ ''update'' (shard_resource class shard)])
      | None \<Rightarrow>
          (metaWriter_UpdateShardStatus h class shard status,
           [Authorize_call princ ''update'' (shard_resource class shard),
            metaWriter_UpdateShardStatus_call class shard status]))"

text \<open>
  \<open>strings.Split(s, sep)\<close> of the Go standard library, for a separator of one byte (the
  code splits at \<open>":"\<close>): the pieces of \<open>s\<close> between the separators, always at least one.
\<close>

fun strings_Split :: "string \<Rightarrow> char \<Rightarrow> string list" where
  "strings_Split [] sep = [[]]"
| "strings_Split (c # cs) sep =
     (if c = sep then [] # strings_Split cs sep
      else (case strings_Split cs sep of
              [] \<Rightarrow> [[c]]
            | w # ws \<Rightarrow> (c # w) # ws))"

text \<open>
  \<open>fmt.Sprintf("%d", n)\<close>: the decimal digits of \<open>n\<close>, after a minus sign when \<open>n\<close> is
  negative.
\<close>

fun decimal :: "nat \<Rightarrow> string" where
  "decimal n =
     (if n < 10 then [''0123456789'' ! n]
      else decimal (n div 10) @ [''0123456789'' ! (n mod 10)])"

declare decimal.simps [simp del]

definition Sprintf_d :: "int \<Rightarrow> string" where
  "Sprintf_d n = (if n < 0 then CHR ''-'' # decimal (nat (- n)) else decimal (nat n))"

text \<open>
  A Go function either returns or panics; indexing a slice out of range panics.
  \<open>JoinNode\<close> indexes the result of \<open>strings.Split\<close> at 0.
\<close>

text \<open>
  \<^verbatim>\<open>
  func (h *Handler) JoinNode(ctx context.Context, node string, nodePort string, voter bool) error {
      nodeAddr, ok := h.clusterState.NodeHostname(node)
      if !ok { return fmt.Errorf("could not resolve addr for node id %v", node) }
      nodeAddr = strings.Split(nodeAddr, ":")[0]
      if nodePort == "" { nodePort = fmt.Sprintf("%d", config.DefaultRaftPort) }
      return h.metaWriter.Join(ctx, node, nodeAddr+":"+nodePort, voter)
  }
  \<close>
\<close>

datatype 'a outcome = Returns 'a | Panics

text \<open>
  \<open>config.DefaultRaftPort\<close> is a constant of package usecases/config, outside the source
  files: it is the first parameter of \<open>JoinNode\<close>.
\<close>

definition JoinNode ::
  "int \<Rightarrow> 'p Handler \<Rightarrow> string \<Rightarrow> string \<Rightarrow> bool \<Rightarrow> error option outcome \<times> 'p call list" where
  "JoinNode DefaultRaftPort h node nodePort voter =
     (case clusterState_NodeHostname h node of
        (nodeAddr, ok) \<Rightarrow>
          if \<not> ok
          then (Returns (Some (Errorf (''could not resolve addr for node id '' @ node))),
                [clusterState_NodeHostname_call node])
          else
            (case strings_Split nodeAddr CHR '':'' of
               [] \<Rightarrow> (Panics, [clusterState_NodeHostname_call node])
             | nodeAddr' # _ \<Rightarrow>
                 let nodePort' = (if nodePort = [] then Sprintf_d DefaultRaftPort else nodePort);
                     raftAddr = nodeAddr' @ '':'' @ nodePort'
                 in (Returns (metaWriter_Join h node raftAddr voter),
                     [clusterState_NodeHostname_call node,
                      metaWriter_Join_call node raftAddr voter])))"

section \<open>Example inputs\<close>

text \<open>
  The schema of the spec's scenario: class \<open>Article\<close> whose property \<open>tags\<close> has the
  types \<open>["text"]\<close>, behind a second property. The authorizer lets the principal
  \<open>admin\<close> through and nobody else; saving and migrating succeed.
\<close>

definition article_schema :: models_Schema where
  "article_schema =
     \<lparr>Classes = [\<lparr>Class = ''Article'',
                  Properties = [\<lparr>Name = ''title'', DataType = [''string'']\<rparr>,
                                \<lparr>Name = ''tags'', DataType = [''text'']\<rparr>]\<rparr>]\<rparr>"

definition admin_only :: "string \<Rightarrow> string \<Rightarrow> string \<Rightarrow> error option" where
  "admin_only princ verb resource =
     (if princ = ''admin'' then None else Some (Errorf ''forbidden''))"

definition article_manager :: "string Manager" where
  "article_manager =
     \<lparr>authorizer = admin_only, state = article_schema, saveSchema = (\<lambda>s. None),
      migrator = (\<lambda>c p t. None), calls = []\<rparr>"

text \<open>
  Variants of the example: a manager whose \<open>saveSchema\<close> fails, one whose migrator fails,
  the manager after \<open>text[]\<close> has been added to \<open>tags\<close>, and a manager whose property
  \<open>tags\<close> lists \<open>text\<close> twice.
\<close>

definition failing_save_manager :: "string Manager" where
  "failing_save_manager = article_manager\<lparr>saveSchema := (\<lambda>s. Some (Errorf ''disk full''))\<rparr>"

definition failing_migrator_manager :: "string Manager" where
  "failing_migrator_manager =
     article_manager\<lparr>migrator := (\<lambda>c p t. Some (Errorf (''cannot migrate '' @ t)))\<rparr>"

definition article_manager_once :: "string Manager" where
  "article_manager_once =
     article_manager
       \<lparr>state := \<lparr>Classes = [\<lparr>Class = ''Article'',
                    Properties = [\<lparr>Name = ''title'', DataType = [''string'']\<rparr>,
                                  \<lparr>Name = ''tags'', DataType = [''text'', ''text[]'']\<rparr>]\<rparr>]\<rparr>,
        calls := [Authorize_call ''admin'' ''update'' ''schema/objects'', SchemaFor_call,
                  saveSchema_call,
                  migrator_UpdatePropertyAddDataType_call ''Article'' ''tags'' ''text[]'']\<rparr>"

definition duplicate_schema :: models_Schema where
  "duplicate_schema =
     \<lparr>Classes = [\<lparr>Class = ''Article'',
                  Properties = [\<lparr>Name = ''tags'', DataType = [''text'', ''text'']\<rparr>]\<rparr>]\<rparr>"

definition duplicate_manager :: "string Manager" where
  "duplicate_manager =
     \<lparr>authorizer = admin_only, state = duplicate_schema, saveSchema = (\<lambda>s. None),
      migrator = (\<lambda>c p t. None), calls = []\<rparr>"

text \<open>
  A handler over the same schema: the authorizer is the one above, the metaWriter accepts
  every call, and the cluster knows the node \<open>node1\<close> at an address that carries the
  gossip port.
\<close>

definition example_handler :: "string Handler" where
  "example_handler =
     \<lparr>Authorizer = admin_only,
      metaWriter_UpdateShardStatus = (\<lambda>class shard status. None),
      metaWriter_Join = (\<lambda>nodeID raftAddr voter. None),
      metaReader_ReadOnlySchema = article_schema,
      clusterState_NodeHostname =
        (\<lambda>node. if node = ''node1'' then (''10.0.0.1:7946'', True) else ([], False))\<rparr>"

section \<open>Properties of the helpers\<close>

lemma dataTypeAlreadyContained_iff:
  "dataTypeAlreadyContained haystack needle \<longleftrightarrow> needle \<in> set haystack"
  by (induction haystack) auto

lemma lookup_ptr_None_iff: "lookup_ptr P xs = None \<longleftrightarrow> (\<forall>x \<in> set xs. \<not> P x)"
  by (induction xs) (auto split: option.splits)

text \<open>A successful lookup returns the first element that satisfies the test.\<close>

lemma lookup_ptr_Some:
  "lookup_ptr P xs = Some (i, x) \<Longrightarrow>
     i < length xs \<and> xs ! i = x \<and> P x \<and> (\<forall>j < i. \<not> P (xs ! j))"
proof (induction xs arbitrary: i)
  case Nil
  then show ?case by simp
next
  case (Cons a xs)
  show ?case
  proof (cases "P a")
    case True
    with Cons.prems show ?thesis by simp
  next
    case False
    with Cons.prems obtain k where k: "lookup_ptr P xs = Some (k, x)" "i = Suc k"
      by (auto split: option.splits)
    from Cons.IH [OF k(1)] False k(2) show ?thesis
      by (auto simp: less_Suc_eq_0_disj)
  qed
qed

text \<open>Overwriting the element found by one that passes the test keeps the pointer.\<close>

lemma lookup_ptr_update:
  "lookup_ptr P xs = Some (i, x) \<Longrightarrow> P y \<Longrightarrow> lookup_ptr P (xs[i := y]) = Some (i, y)"
proof (induction xs arbitrary: i)
  case Nil
  then show ?case by simp
next
  case (Cons a xs)
  show ?case
  proof (cases "P a")
    case True
    with Cons.prems show ?thesis by simp
  next
    case False
    with Cons.prems obtain k where k: "lookup_ptr P xs = Some (k, x)" "i = Suc k"
      by (auto split: option.splits)
    from Cons.IH [OF k(1) Cons.prems(2)] False k(2) show ?thesis
      by simp
  qed
qed

lemma GetClassByName_Inr:
  "GetClassByName s className = Inr (ci, class) \<Longrightarrow>
     ci < length (Classes s) \<and> Classes s ! ci = class \<and> Class class = className"
  by (auto simp: GetClassByName_def split: option.splits dest: lookup_ptr_Some)

lemma GetPropertyByName_Inr:
  "GetPropertyByName c propName = Inr (pi, prop) \<Longrightarrow>
     pi < length (Properties c) \<and> Properties c ! pi = prop \<and> Name prop = propName"
  by (auto simp: GetPropertyByName_def split: option.splits dest: lookup_ptr_Some)

lemma GetClassByName_Inl_iff:
  "GetClassByName s className = Inl (ErrNoSuchClass className) \<longleftrightarrow>
     (\<forall>c \<in> set (Classes s). Class c \<noteq> className)"
  by (cases "lookup_ptr (\<lambda>c. Class c = className) (Classes s)")
     (auto simp: GetClassByName_def lookup_ptr_None_iff [symmetric])

lemma GetPropertyByName_Inl_iff:
  "GetPropertyByName c propName = Inl (ErrNoSuchProperty propName (Class c)) \<longleftrightarrow>
     (\<forall>p \<in> set (Properties c). Name p \<noteq> propName)"
  by (cases "lookup_ptr (\<lambda>p. Name p = propName) (Properties c)")
     (auto simp: GetPropertyByName_def lookup_ptr_None_iff [symmetric])

text \<open>
  With the pointers the lookups returned, the assignment replaces the \<open>DataType\<close> of the
  property found and nothing else, and the same lookups find the property again.
\<close>

lemma assign_DataType_found:
  assumes "GetClassByName s className = Inr (ci, class)"
    and "GetPropertyByName class propName = Inr (pi, prop)"
  shows "assign_DataType s ci pi dt =
           s\<lparr>Classes := (Classes s)[ci :=
              class\<lparr>Properties := (Properties class)[pi := prop\<lparr>DataType := dt\<rparr>]\<rparr>]\<rparr>"
  using GetClassByName_Inr [OF assms(1)] GetPropertyByName_Inr [OF assms(2)]
  by (simp add: assign_DataType_def)

lemma lookup_after_assign:
  assumes c: "GetClassByName s className = Inr (ci, class)"
    and p: "GetPropertyByName class propName = Inr (pi, prop)"
  shows "GetClassByName (assign_DataType s ci pi dt) className =
           Inr (ci, class\<lparr>Properties := (Properties class)[pi := prop\<lparr>DataType := dt\<rparr>]\<rparr>)"
    and "GetPropertyByName
           (class\<lparr>Properties := (Properties class)[pi := prop\<lparr>DataType := dt\<rparr>]\<rparr>) propName =
           Inr (pi, prop\<lparr>DataType := dt\<rparr>)"
proof -
  from c have lc: "lookup_ptr (\<lambda>c. Class c = className) (Classes s) = Some (ci, class)"
    by (auto simp: GetClassByName_def split: option.splits)
  from p have lp: "lookup_ptr (\<lambda>p. Name p = propName) (Properties class) = Some (pi, prop)"
    by (auto simp: GetPropertyByName_def split: option.splits)
  have nc: "Class class = className" using GetClassByName_Inr [OF c] by simp
  have np: "Name prop = propName" using GetPropertyByName_Inr [OF p] by simp
  show "GetClassByName (assign_DataType s ci pi dt) className =
           Inr (ci, class\<lparr>Properties := (Properties class)[pi := prop\<lparr>DataType := dt\<rparr>]\<rparr>)"
    using lookup_ptr_update [OF lc,
        of "class\<lparr>Properties := (Properties class)[pi := prop\<lparr>DataType := dt\<rparr>]\<rparr>"] nc
    by (simp add: assign_DataType_found [OF c p] GetClassByName_def)
  show "GetPropertyByName
           (class\<lparr>Properties := (Properties class)[pi := prop\<lparr>DataType := dt\<rparr>]\<rparr>) propName =
           Inr (pi, prop\<lparr>DataType := dt\<rparr>)"
    using lookup_ptr_update [OF lp, of "prop\<lparr>DataType := dt\<rparr>"] np
    by (simp add: GetPropertyByName_def)
qed

text \<open>The two paths of \<open>UpdatePropertyAddDataType\<close> past the lookups.\<close>

lemma UpdatePropertyAddDataType_contained:
  assumes "authorizer m princ ''update'' ''schema/objects'' = None"
    and "GetClassByName (state m) className = Inr (ci, class)"
    and "GetPropertyByName class propName = Inr (pi, prop)"
    and "newDataType \<in> set (DataType prop)"
  shows "UpdatePropertyAddDataType m princ className propName newDataType =
           (None, m\<lparr>calls := calls m @
              [Authorize_call princ ''update'' ''schema/objects'', SchemaFor_call]\<rparr>)"
  using assms
  by (simp add: UpdatePropertyAddDataType_def logged_def dataTypeAlreadyContained_iff)

lemma UpdatePropertyAddDataType_absent:
  assumes "authorizer m princ ''update'' ''schema/objects'' = None"
    and "GetClassByName (state m) className = Inr (ci, class)"
    and "GetPropertyByName class propName = Inr (pi, prop)"
    and "newDataType \<notin> set (DataType prop)"
  shows "UpdatePropertyAddDataType m princ className propName newDataType =
           (let s' = assign_DataType (state m) ci pi (DataType prop @ [newDataType]);
                cs = calls m @ [Authorize_call princ ''update'' ''schema/objects'',
                                SchemaFor_call, saveSchema_call]
            in case saveSchema m s' of
                 Some err \<Rightarrow> (None, m\<lparr>state := s', calls := cs\<rparr>)
               | None \<Rightarrow>
                   (migrator m className propName newDataType,
                    m\<lparr>state := s',
                      calls := cs @ [migrator_UpdatePropertyAddDataType_call
                                       className propName newDataType]\<rparr>))"
  using assms
  by (simp add: UpdatePropertyAddDataType_def logged_def dataTypeAlreadyContained_iff
        Let_def split: option.splits)

lemma article_lookups:
  "authorizer article_manager ''admin'' ''update'' ''schema/objects'' = None"
  "GetClassByName (state article_manager) ''Article'' = Inr (0, hd (Classes article_schema))"
  "GetPropertyByName (hd (Classes article_schema)) ''tags'' =
     Inr (1, \<lparr>Name = ''tags'', DataType = [''text'']\<rparr>)"
  by (simp_all add: article_manager_def admin_only_def article_schema_def
        GetClassByName_def GetPropertyByName_def)

text \<open>
  The first piece of a split is the text before the first separator, so indexing the
  result at 0 is in range and \<open>JoinNode\<close> returns.
\<close>

lemma strings_Split_takeWhile:
  "\<exists>ws. strings_Split s sep = takeWhile (\<lambda>c. c \<noteq> sep) s # ws"
  by (induction s) (auto split: list.splits)

lemma JoinNode_resolved:
  assumes "clusterState_NodeHostname h node = (nodeAddr, True)"
  shows "JoinNode DefaultRaftPort h node nodePort voter =
           (let raftAddr = takeWhile (\<lambda>c. c \<noteq> CHR '':'') nodeAddr @ '':'' @
                             (if nodePort = [] then Sprintf_d DefaultRaftPort else nodePort)
            in (Returns (metaWriter_Join h node raftAddr voter),
                [clusterState_NodeHostname_call node, metaWriter_Join_call node raftAddr voter]))"
proof -
  obtain ws where "strings_Split nodeAddr CHR '':'' = takeWhile (\<lambda>c. c \<noteq> CHR '':'') nodeAddr # ws"
    using strings_Split_takeWhile by blast
  with assms show ?thesis
    by (simp add: JoinNode_def Let_def)
qed

lemma JoinNode_returns: "fst (JoinNode DefaultRaftPort h node nodePort voter) \<noteq> Panics"
proof (cases "clusterState_NodeHostname h node")
  case (Pair nodeAddr ok)
  show ?thesis
  proof (cases ok)
    case True
    with Pair show ?thesis
      by (simp add: JoinNode_resolved Let_def)
  next
    case False
    with Pair show ?thesis
      by (simp add: JoinNode_def)
  qed
qed

lemma Sprintf_d_examples: "Sprintf_d 8300 = ''8300''" "Sprintf_d 0 = ''0''" "Sprintf_d (- 12) = ''-12''"
  by (simp_all add: Sprintf_d_def decimal.simps)

section \<open>Adding a data type that is already there\<close>

text \<open>
  C1. When the principal is authorized, the lookups find class \<open>className\<close> and its
  property \<open>propName\<close>, and \<open>newDataType\<close> is an element of that property's \<open>DataType\<close>
  list (equality of strings, so case-sensitive and exact), then
  \<open>UpdatePropertyAddDataType\<close> returns nil and leaves the manager as it was but for the
  log, which gains the authorization and the read of the schema and nothing else: the
  \<open>DataType\<close> list is unchanged, and neither \<open>saveSchema\<close> nor the migrator is called.
\<close>

theorem UpdatePropertyAddDataType_present_noop:
  assumes "authorizer m princ ''update'' ''schema/objects'' = None"
    and "GetClassByName (state m) className = Inr (ci, class)"
    and "GetPropertyByName class propName = Inr (pi, prop)"
    and "newDataType \<in> set (DataType prop)"
  shows "UpdatePropertyAddDataType m princ className propName newDataType =
           (None, m\<lparr>calls := calls m @
              [Authorize_call princ ''update'' ''schema/objects'', SchemaFor_call]\<rparr>)"
  using assms
  by (simp add: UpdatePropertyAddDataType_def logged_def dataTypeAlreadyContained_iff)

theorem UpdatePropertyAddDataType_present_noop_witness:
  "authorizer article_manager ''admin'' ''update'' ''schema/objects'' = None \<and>
   GetClassByName (state article_manager) ''Article'' = Inr (0, hd (Classes article_schema)) \<and>
   GetPropertyByName (hd (Classes article_schema)) ''tags'' =
     Inr (1, \<lparr>Name = ''tags'', DataType = [''text'']\<rparr>) \<and>
   UpdatePropertyAddDataType article_manager ''admin'' ''Article'' ''tags'' ''text'' =
     (None, article_manager\<lparr>calls :=
        [Authorize_call ''admin'' ''update'' ''schema/objects'', SchemaFor_call]\<rparr>)"
proof -
  have a: "authorizer article_manager ''admin'' ''update'' ''schema/objects'' = None"
    by (simp add: article_manager_def admin_only_def)
  have c: "GetClassByName (state article_manager) ''Article'' =
             Inr (0, hd (Classes article_schema))"
    by (simp add: article_manager_def article_schema_def GetClassByName_def)
  have p: "GetPropertyByName (hd (Classes article_schema)) ''tags'' =
             Inr (1, \<lparr>Name = ''tags'', DataType = [''text'']\<rparr>)"
    by (simp add: article_schema_def GetPropertyByName_def)
  have t: "''text'' \<in> set (DataType \<lparr>Name = ''tags'', DataType = [''text'']\<rparr>)"
    by simp
  from UpdatePropertyAddDataType_present_noop [OF a c p t] a c p show ?thesis
    by (simp add: article_manager_def)
qed

section \<open>Adding the same data type twice\<close>

text \<open>
  C2, as the code has it. The principal is authorized and the lookups find class
  \<open>className\<close> and its property \<open>propName\<close>. After two calls of
  \<open>UpdatePropertyAddDataType\<close> with the same type the schema is the one the first call
  left: the second call returns nil and adds to the log only the authorization and the
  read of the schema, so it neither appends nor saves nor migrates. The property is
  found again in the same place, and its \<open>DataType\<close> list is the old list if the type was
  in it, the old list with the type appended otherwise. So the type occurs as often as
  before when it was there, and once when it was not: exactly once whenever it occurred at
  most once before the first call.
\<close>

theorem UpdatePropertyAddDataType_twice:
  assumes auth: "authorizer m princ ''update'' ''schema/objects'' = None"
    and c: "GetClassByName (state m) className = Inr (ci, class)"
    and p: "GetPropertyByName class propName = Inr (pi, prop)"
    and once: "UpdatePropertyAddDataType m princ className propName newDataType = (r1, m1)"
    and twice: "UpdatePropertyAddDataType m1 princ className propName newDataType = (r2, m2)"
  shows "r2 = None \<and> state m2 = state m1 \<and>
         calls m2 = calls m1 @ [Authorize_call princ ''update'' ''schema/objects'', SchemaFor_call] \<and>
         (\<exists>class' prop'.
            GetClassByName (state m2) className = Inr (ci, class') \<and>
            GetPropertyByName class' propName = Inr (pi, prop') \<and>
            DataType prop' =
              (if newDataType \<in> set (DataType prop) then DataType prop
               else DataType prop @ [newDataType]) \<and>
            count_list (DataType prop') newDataType =
              max 1 (count_list (DataType prop) newDataType))"
proof (cases "newDataType \<in> set (DataType prop)")
  case True
  from UpdatePropertyAddDataType_contained [OF auth c p True] once
  have m1: "m1 = m\<lparr>calls := calls m @
              [Authorize_call princ ''update'' ''schema/objects'', SchemaFor_call]\<rparr>"
    by simp
  have auth1: "authorizer m1 princ ''update'' ''schema/objects'' = None"
    using auth by (simp add: m1)
  have c1: "GetClassByName (state m1) className = Inr (ci, class)"
    using c by (simp add: m1)
  from UpdatePropertyAddDataType_contained [OF auth1 c1 p True] twice
  have m2: "r2 = None" "m2 = m1\<lparr>calls := calls m1 @
              [Authorize_call princ ''update'' ''schema/objects'', SchemaFor_call]\<rparr>"
    by simp_all
  have pos: "0 < count_list (DataType prop) newDataType"
    using True count_list_0_iff [of "DataType prop" newDataType] by simp
  show ?thesis
    using m2 c1 p True pos by (auto simp: max_def)
next
  case False
  let ?dt = "DataType prop @ [newDataType]"
  let ?s = "assign_DataType (state m) ci pi ?dt"
  let ?cls = "class\<lparr>Properties := (Properties class)[pi := prop\<lparr>DataType := ?dt\<rparr>]\<rparr>"
  from UpdatePropertyAddDataType_absent [OF auth c p False] once
  have m1: "state m1 = ?s" "authorizer m1 = authorizer m"
    by (auto simp: Let_def split: option.splits)
  have auth1: "authorizer m1 princ ''update'' ''schema/objects'' = None"
    using auth by (simp add: m1)
  have c1: "GetClassByName (state m1) className = Inr (ci, ?cls)"
    using lookup_after_assign(1) [OF c p] by (simp add: m1)
  have p1: "GetPropertyByName ?cls propName = Inr (pi, prop\<lparr>DataType := ?dt\<rparr>)"
    using lookup_after_assign(2) [OF c p] by simp
  have t1: "newDataType \<in> set (DataType (prop\<lparr>DataType := ?dt\<rparr>))"
    by simp
  from UpdatePropertyAddDataType_contained [OF auth1 c1 p1 t1] twice
  have m2: "r2 = None" "m2 = m1\<lparr>calls := calls m1 @
              [Authorize_call princ ''update'' ''schema/objects'', SchemaFor_call]\<rparr>"
    by simp_all
  have zero: "count_list (DataType prop) newDataType = 0"
    using False by (simp add: count_list_0_iff)
  show ?thesis
    using m2 c1 p1 False zero by auto
qed

theorem UpdatePropertyAddDataType_twice_witness:
  "authorizer article_manager ''admin'' ''update'' ''schema/objects'' = None \<and>
   GetClassByName (state article_manager) ''Article'' = Inr (0, hd (Classes article_schema)) \<and>
   GetPropertyByName (hd (Classes article_schema)) ''tags'' =
     Inr (1, \<lparr>Name = ''tags'', DataType = [''text'']\<rparr>) \<and>
   UpdatePropertyAddDataType article_manager ''admin'' ''Article'' ''tags'' ''text[]'' =
     (None, article_manager_once) \<and>
   (\<exists>m2. UpdatePropertyAddDataType article_manager_once ''admin'' ''Article'' ''tags'' ''text[]'' =
           (None, m2) \<and>
         state m2 = state article_manager_once \<and>
         calls m2 = calls article_manager_once @
           [Authorize_call ''admin'' ''update'' ''schema/objects'', SchemaFor_call] \<and>
         (\<exists>class' prop'.
            GetClassByName (state m2) ''Article'' = Inr (0, class') \<and>
            GetPropertyByName class' ''tags'' = Inr (1, prop') \<and>
            DataType prop' = [''text'', ''text[]''] \<and>
            count_list (DataType prop') ''text[]'' = 1))"
proof -
  have once:
    "UpdatePropertyAddDataType article_manager ''admin'' ''Article'' ''tags'' ''text[]'' =
       (None, article_manager_once)"
    by (simp add: UpdatePropertyAddDataType_def logged_def article_manager_once_def
          article_manager_def article_schema_def admin_only_def GetClassByName_def
          GetPropertyByName_def assign_DataType_def)
  obtain r2 m2 where twice:
    "UpdatePropertyAddDataType article_manager_once ''admin'' ''Article'' ''tags'' ''text[]'' =
       (r2, m2)"
    by (cases "UpdatePropertyAddDataType article_manager_once ''admin'' ''Article'' ''tags''
                 ''text[]''")
  from UpdatePropertyAddDataType_twice [OF article_lookups once twice]
  obtain class' prop' where after: "r2 = None" "state m2 = state article_manager_once"
      "calls m2 = calls article_manager_once @
         [Authorize_call ''admin'' ''update'' ''schema/objects'', SchemaFor_call]"
      "GetClassByName (state m2) ''Article'' = Inr (0, class')"
      "GetPropertyByName class' ''tags'' = Inr (1, prop')"
      "DataType prop' = [''text'', ''text[]'']"
      "count_list (DataType prop') ''text[]'' = 1"
    by auto
  from after twice have
    "\<exists>m2. UpdatePropertyAddDataType article_manager_once ''admin'' ''Article'' ''tags'' ''text[]'' =
           (None, m2) \<and>
         state m2 = state article_manager_once \<and>
         calls m2 = calls article_manager_once @
           [Authorize_call ''admin'' ''update'' ''schema/objects'', SchemaFor_call] \<and>
         (\<exists>class' prop'.
            GetClassByName (state m2) ''Article'' = Inr (0, class') \<and>
            GetPropertyByName class' ''tags'' = Inr (1, prop') \<and>
            DataType prop' = [''text'', ''text[]''] \<and>
            count_list (DataType prop') ''text[]'' = 1)"
    by blast
  with article_lookups once show ?thesis
    by blast
qed

text \<open>
  The code appends only and never removes: a \<open>DataType\<close> list that holds the type twice
  before the calls holds it twice after them.
\<close>

theorem UpdatePropertyAddDataType_twice_counterexample:
  "authorizer duplicate_manager ''admin'' ''update'' ''schema/objects'' = None \<and>
   GetClassByName (state duplicate_manager) ''Article'' =
     Inr (0, hd (Classes duplicate_schema)) \<and>
   GetPropertyByName (hd (Classes duplicate_schema)) ''tags'' =
     Inr (0, \<lparr>Name = ''tags'', DataType = [''text'', ''text'']\<rparr>) \<and>
   state (snd (UpdatePropertyAddDataType
     (snd (UpdatePropertyAddDataType duplicate_manager ''admin'' ''Article'' ''tags'' ''text''))
     ''admin'' ''Article'' ''tags'' ''text'')) =
     \<lparr>Classes = [\<lparr>Class = ''Article'',
                  Properties = [\<lparr>Name = ''tags'', DataType = [''text'', ''text'']\<rparr>]\<rparr>]\<rparr> \<and>
   count_list [''text'', ''text''] ''text'' \<noteq> 1"
  by (simp add: UpdatePropertyAddDataType_def logged_def duplicate_manager_def
        duplicate_schema_def admin_only_def GetClassByName_def GetPropertyByName_def)

section \<open>A failing save\<close>

text \<open>
  C3. When the type was absent and has been appended, and \<open>saveSchema\<close> returns an error
  for the schema with the appended type, \<open>UpdatePropertyAddDataType\<close> returns nil, not
  that error. The appended type stays in the manager's schema, and the log ends with the
  call of \<open>saveSchema\<close>: the migrator is not called.
\<close>

theorem UpdatePropertyAddDataType_save_error_swallowed:
  assumes "authorizer m princ ''update'' ''schema/objects'' = None"
    and "GetClassByName (state m) className = Inr (ci, class)"
    and "GetPropertyByName class propName = Inr (pi, prop)"
    and "newDataType \<notin> set (DataType prop)"
    and "saveSchema m (assign_DataType (state m) ci pi (DataType prop @ [newDataType])) = Some err"
  shows "UpdatePropertyAddDataType m princ className propName newDataType =
           (None,
            m\<lparr>state := assign_DataType (state m) ci pi (DataType prop @ [newDataType]),
              calls := calls m @ [Authorize_call princ ''update'' ''schema/objects'',
                                  SchemaFor_call, saveSchema_call]\<rparr>)"
  using assms(5)
  by (simp add: UpdatePropertyAddDataType_absent [OF assms(1-4)])

theorem UpdatePropertyAddDataType_save_error_swallowed_witness:
  "authorizer failing_save_manager ''admin'' ''update'' ''schema/objects'' = None \<and>
   GetClassByName (state failing_save_manager) ''Article'' = Inr (0, hd (Classes article_schema)) \<and>
   GetPropertyByName (hd (Classes article_schema)) ''tags'' =
     Inr (1, \<lparr>Name = ''tags'', DataType = [''text'']\<rparr>) \<and>
   ''text[]'' \<notin> set [''text''] \<and>
   saveSchema failing_save_manager
     (assign_DataType (state failing_save_manager) 0 1 [''text'', ''text[]'']) =
     Some (Errorf ''disk full'') \<and>
   UpdatePropertyAddDataType failing_save_manager ''admin'' ''Article'' ''tags'' ''text[]'' =
     (None,
      failing_save_manager
        \<lparr>state := \<lparr>Classes = [\<lparr>Class = ''Article'',
                     Properties = [\<lparr>Name = ''title'', DataType = [''string'']\<rparr>,
                                   \<lparr>Name = ''tags'', DataType = [''text'', ''text[]'']\<rparr>]\<rparr>]\<rparr>,
         calls := [Authorize_call ''admin'' ''update'' ''schema/objects'',
                   SchemaFor_call, saveSchema_call]\<rparr>)"
proof -
  have a: "authorizer failing_save_manager ''admin'' ''update'' ''schema/objects'' = None"
    by (simp add: failing_save_manager_def article_manager_def admin_only_def)
  have c: "GetClassByName (state failing_save_manager) ''Article'' =
             Inr (0, hd (Classes article_schema))"
    by (simp add: failing_save_manager_def article_manager_def article_schema_def
          GetClassByName_def)
  have p: "GetPropertyByName (hd (Classes article_schema)) ''tags'' =
             Inr (1, \<lparr>Name = ''tags'', DataType = [''text'']\<rparr>)"
    by (simp add: article_schema_def GetPropertyByName_def)
  have t: "''text[]'' \<notin> set (DataType \<lparr>Name = ''tags'', DataType = [''text'']\<rparr>)"
    by simp
  have s: "saveSchema failing_save_manager
             (assign_DataType (state failing_save_manager) 0 1
                (DataType \<lparr>Name = ''tags'', DataType = [''text'']\<rparr> @ [''text[]''])) =
             Some (Errorf ''disk full'')"
    by (simp add: failing_save_manager_def)
  from UpdatePropertyAddDataType_save_error_swallowed [OF a c p t s] a c p s show ?thesis
    by (simp add: failing_save_manager_def article_manager_def article_schema_def
          assign_DataType_def)
qed

section \<open>Adding a new data type\<close>

text \<open>
  C6. When the principal is authorized, the lookups find class \<open>className\<close> and its
  property \<open>propName\<close>, \<open>newDataType\<close> is not in the property's \<open>DataType\<close> list and
  \<open>saveSchema\<close> succeeds, the call returns what the migrator returns. Afterwards the schema
  differs from the old one in that property alone, the lookups find the property in the
  same place, and its \<open>DataType\<close> list is the old list followed by \<open>newDataType\<close>. The log
  gains the authorization, the read of the schema, the save and the migration, in this
  order.
\<close>

theorem UpdatePropertyAddDataType_appends:
  assumes "authorizer m princ ''update'' ''schema/objects'' = None"
    and "GetClassByName (state m) className = Inr (ci, class)"
    and "GetPropertyByName class propName = Inr (pi, prop)"
    and "newDataType \<notin> set (DataType prop)"
    and "saveSchema m (assign_DataType (state m) ci pi (DataType prop @ [newDataType])) = None"
    and "class' = class\<lparr>Properties :=
           (Properties class)[pi := prop\<lparr>DataType := DataType prop @ [newDataType]\<rparr>]\<rparr>"
    and "UpdatePropertyAddDataType m princ className propName newDataType = (r, m')"
  shows "r = migrator m className propName newDataType \<and>
         state m' = (state m)\<lparr>Classes := (Classes (state m))[ci := class']\<rparr> \<and>
         GetClassByName (state m') className = Inr (ci, class') \<and>
         GetPropertyByName class' propName =
           Inr (pi, prop\<lparr>DataType := DataType prop @ [newDataType]\<rparr>) \<and>
         calls m' = calls m @
           [Authorize_call princ ''update'' ''schema/objects'', SchemaFor_call, saveSchema_call,
            migrator_UpdatePropertyAddDataType_call className propName newDataType]"
proof -
  let ?dt = "DataType prop @ [newDataType]"
  from assms(5,7) have r: "r = migrator m className propName newDataType"
    and m': "m' = m\<lparr>state := assign_DataType (state m) ci pi ?dt,
                   calls := calls m @
                     [Authorize_call princ ''update'' ''schema/objects'', SchemaFor_call,
                      saveSchema_call,
                      migrator_UpdatePropertyAddDataType_call className propName newDataType]\<rparr>"
    by (simp_all add: UpdatePropertyAddDataType_absent [OF assms(1-4)])
  have s: "state m' = (state m)\<lparr>Classes := (Classes (state m))[ci := class']\<rparr>"
    by (simp add: m' assms(6) assign_DataType_found [OF assms(2,3)])
  have c: "GetClassByName (state m') className = Inr (ci, class')"
    using lookup_after_assign(1) [OF assms(2,3), of ?dt] by (simp add: m' assms(6))
  have p: "GetPropertyByName class' propName = Inr (pi, prop\<lparr>DataType := ?dt\<rparr>)"
    using lookup_after_assign(2) [OF assms(2,3), of ?dt] by (simp add: assms(6))
  show ?thesis
    using r s c p by (simp add: m')
qed

theorem UpdatePropertyAddDataType_appends_witness:
  "authorizer failing_migrator_manager ''admin'' ''update'' ''schema/objects'' = None \<and>
   GetClassByName (state failing_migrator_manager) ''Article'' =
     Inr (0, hd (Classes article_schema)) \<and>
   GetPropertyByName (hd (Classes article_schema)) ''tags'' =
     Inr (1, \<lparr>Name = ''tags'', DataType = [''text'']\<rparr>) \<and>
   ''text[]'' \<notin> set [''text''] \<and>
   saveSchema failing_migrator_manager
     (assign_DataType (state failing_migrator_manager) 0 1 [''text'', ''text[]'']) = None \<and>
   (\<exists>m'. UpdatePropertyAddDataType failing_migrator_manager ''admin'' ''Article'' ''tags'' ''text[]'' =
           (Some (Errorf ''cannot migrate text[]''), m') \<and>
         state m' =
           \<lparr>Classes = [\<lparr>Class = ''Article'',
                        Properties = [\<lparr>Name = ''title'', DataType = [''string'']\<rparr>,
                                      \<lparr>Name = ''tags'', DataType = [''text'', ''text[]'']\<rparr>]\<rparr>]\<rparr> \<and>
         calls m' =
           [Authorize_call ''admin'' ''update'' ''schema/objects'', SchemaFor_call, saveSchema_call,
            migrator_UpdatePropertyAddDataType_call ''Article'' ''tags'' ''text[]''])"
proof -
  have a: "authorizer failing_migrator_manager ''admin'' ''update'' ''schema/objects'' = None"
    by (simp add: failing_migrator_manager_def article_manager_def admin_only_def)
  have c: "GetClassByName (state failing_migrator_manager) ''Article'' =
             Inr (0, hd (Classes article_schema))"
    by (simp add: failing_migrator_manager_def article_manager_def article_schema_def
          GetClassByName_def)
  have p: "GetPropertyByName (hd (Classes article_schema)) ''tags'' =
             Inr (1, \<lparr>Name = ''tags'', DataType = [''text'']\<rparr>)"
    by (simp add: article_schema_def GetPropertyByName_def)
  have t: "''text[]'' \<notin> set (DataType \<lparr>Name = ''tags'', DataType = [''text'']\<rparr>)"
    by simp
  have s: "saveSchema failing_migrator_manager
             (assign_DataType (state failing_migrator_manager) 0 1
                (DataType \<lparr>Name = ''tags'', DataType = [''text'']\<rparr> @ [''text[]''])) = None"
    by (simp add: failing_migrator_manager_def article_manager_def)
  obtain r m' where u:
    "UpdatePropertyAddDataType failing_migrator_manager ''admin'' ''Article'' ''tags'' ''text[]'' =
       (r, m')"
    by (cases "UpdatePropertyAddDataType failing_migrator_manager ''admin'' ''Article'' ''tags''
                 ''text[]''")
  from UpdatePropertyAddDataType_appends [OF a c p t s refl u] u a c p s show ?thesis
    by (simp add: failing_migrator_manager_def article_manager_def article_schema_def)
qed

section \<open>Class or property not found\<close>

text \<open>
  C7. For an authorized principal: when no class of the schema has the name \<open>className\<close>,
  \<open>UpdatePropertyAddDataType\<close> returns the error \<open>ErrNoSuchClass\<close>; when the class is found
  and none of its properties has the name \<open>propName\<close>, it returns the error
  \<open>ErrNoSuchProperty\<close>. In both cases the manager is unchanged but for the log, which
  gains the authorization and the read of the schema: nothing is appended, and neither
  \<open>saveSchema\<close> nor the migrator is called.
\<close>

theorem UpdatePropertyAddDataType_not_found:
  assumes "authorizer m princ ''update'' ''schema/objects'' = None"
  shows "((\<forall>c \<in> set (Classes (state m)). Class c \<noteq> className) \<longrightarrow>
            UpdatePropertyAddDataType m princ className propName newDataType =
              (Some (ErrNoSuchClass className),
               m\<lparr>calls := calls m @
                  [Authorize_call princ ''update'' ''schema/objects'', SchemaFor_call]\<rparr>)) \<and>
         (GetClassByName (state m) className = Inr (ci, class) \<and>
          (\<forall>p \<in> set (Properties class). Name p \<noteq> propName) \<longrightarrow>
            UpdatePropertyAddDataType m princ className propName newDataType =
              (Some (ErrNoSuchProperty propName className),
               m\<lparr>calls := calls m @
                  [Authorize_call princ ''update'' ''schema/objects'', SchemaFor_call]\<rparr>))"
proof (intro conjI impI)
  assume "\<forall>c \<in> set (Classes (state m)). Class c \<noteq> className"
  then have "GetClassByName (state m) className = Inl (ErrNoSuchClass className)"
    by (simp add: GetClassByName_Inl_iff)
  with assms show "UpdatePropertyAddDataType m princ className propName newDataType =
      (Some (ErrNoSuchClass className),
       m\<lparr>calls := calls m @
          [Authorize_call princ ''update'' ''schema/objects'', SchemaFor_call]\<rparr>)"
    by (simp add: UpdatePropertyAddDataType_def logged_def)
next
  assume h: "GetClassByName (state m) className = Inr (ci, class) \<and>
             (\<forall>p \<in> set (Properties class). Name p \<noteq> propName)"
  then have p: "GetPropertyByName class propName = Inl (ErrNoSuchProperty propName (Class class))"
    by (simp add: GetPropertyByName_Inl_iff)
  from h have n: "Class class = className"
    using GetClassByName_Inr by blast
  from assms h p n show "UpdatePropertyAddDataType m princ className propName newDataType =
      (Some (ErrNoSuchProperty propName className),
       m\<lparr>calls := calls m @
          [Authorize_call princ ''update'' ''schema/objects'', SchemaFor_call]\<rparr>)"
    by (simp add: UpdatePropertyAddDataType_def logged_def)
qed

theorem UpdatePropertyAddDataType_not_found_witness:
  "authorizer article_manager ''admin'' ''update'' ''schema/objects'' = None \<and>
   ''Author'' \<notin> set (map Class (Classes (state article_manager))) \<and>
   UpdatePropertyAddDataType article_manager ''admin'' ''Author'' ''tags'' ''text'' =
     (Some (ErrNoSuchClass ''Author''),
      article_manager\<lparr>calls :=
        [Authorize_call ''admin'' ''update'' ''schema/objects'', SchemaFor_call]\<rparr>) \<and>
   GetClassByName (state article_manager) ''Article'' = Inr (0, hd (Classes article_schema)) \<and>
   ''body'' \<notin> set (map Name (Properties (hd (Classes article_schema)))) \<and>
   UpdatePropertyAddDataType article_manager ''admin'' ''Article'' ''body'' ''text'' =
     (Some (ErrNoSuchProperty ''body'' ''Article''),
      article_manager\<lparr>calls :=
        [Authorize_call ''admin'' ''update'' ''schema/objects'', SchemaFor_call]\<rparr>)"
proof -
  have a: "authorizer article_manager ''admin'' ''update'' ''schema/objects'' = None"
    by (simp add: article_manager_def admin_only_def)
  have c: "GetClassByName (state article_manager) ''Article'' =
             Inr (0, hd (Classes article_schema))"
    by (simp add: article_manager_def article_schema_def GetClassByName_def)
  have nc: "\<forall>c \<in> set (Classes (state article_manager)). Class c \<noteq> ''Author''"
    by (simp add: article_manager_def article_schema_def)
  have np: "\<forall>p \<in> set (Properties (hd (Classes article_schema))). Name p \<noteq> ''body''"
    by (simp add: article_schema_def)
  from UpdatePropertyAddDataType_not_found
         [OF a, of "''Author''" "''tags''" "''text''" 0 "hd (Classes article_schema)"]
       UpdatePropertyAddDataType_not_found
         [OF a, of "''Article''" "''body''" "''text''" 0 "hd (Classes article_schema)"]
       a c nc np
  show ?thesis
    by (simp add: article_manager_def article_schema_def)
qed

section \<open>Authorization comes first\<close>

text \<open>
  C4. When the authorizer returns an error for the principal,
  \<open>UpdatePropertyAddDataType\<close> returns that error and leaves the manager as it was but for
  the log, which gains the call of the authorizer alone: the schema is neither read nor
  changed, nothing is saved or migrated. In the same way \<open>Handler.UpdateShardStatus\<close>
  returns the authorizer's error, and the only collaborator call it makes is that of the
  authorizer: the metaWriter is not called.
\<close>

theorem authorization_failure_short_circuits:
  "(authorizer m princ ''update'' ''schema/objects'' = Some err \<longrightarrow>
      UpdatePropertyAddDataType m princ className propName newDataType =
        (Some err, m\<lparr>calls := calls m @ [Authorize_call princ ''update'' ''schema/objects'']\<rparr>)) \<and>
   (Authorizer h princ ''update'' (''schema/'' @ class @ ''/shards/'' @ shard) = Some err' \<longrightarrow>
      UpdateShardStatus h princ class shard status =
        (Some err', [Authorize_call princ ''update'' (''schema/'' @ class @ ''/shards/'' @ shard)]))"
  by (simp add: UpdatePropertyAddDataType_def logged_def UpdateShardStatus_def shard_resource_def)

theorem authorization_failure_short_circuits_witness:
  "authorizer article_manager ''guest'' ''update'' ''schema/objects'' = Some (Errorf ''forbidden'') \<and>
   UpdatePropertyAddDataType article_manager ''guest'' ''Article'' ''tags'' ''text[]'' =
     (Some (Errorf ''forbidden''),
      article_manager\<lparr>calls := [Authorize_call ''guest'' ''update'' ''schema/objects'']\<rparr>) \<and>
   Authorizer example_handler ''guest'' ''update'' ''schema/Article/shards/shard1'' =
     Some (Errorf ''forbidden'') \<and>
   UpdateShardStatus example_handler ''guest'' ''Article'' ''shard1'' ''READONLY'' =
     (Some (Errorf ''forbidden''),
      [Authorize_call ''guest'' ''update'' ''schema/Article/shards/shard1''])"
  using authorization_failure_short_circuits
          [of article_manager "''guest''" "Errorf ''forbidden''" "''Article''" "''tags''" "''text[]''"
              example_handler "''Article''" "''shard1''" "Errorf ''forbidden''" "''READONLY''"]
  by (simp add: article_manager_def example_handler_def admin_only_def)

section \<open>Joining a node\<close>

text \<open>
  C5. When the cluster state cannot resolve the node (\<open>NodeHostname\<close> returns \<open>ok\<close> false),
  \<open>Handler.JoinNode\<close> returns an error whose message names the node, and the only
  collaborator call it makes is \<open>NodeHostname\<close>: the metaWriter's \<open>Join\<close> is not called.
\<close>

theorem JoinNode_unresolvable:
  assumes "clusterState_NodeHostname h node = (nodeAddr, False)"
  shows "JoinNode DefaultRaftPort h node nodePort voter =
           (Returns (Some (Errorf (''could not resolve addr for node id '' @ node))),
            [clusterState_NodeHostname_call node])"
  using assms by (simp add: JoinNode_def)

theorem JoinNode_unresolvable_witness:
  "clusterState_NodeHostname example_handler ''node9'' = ([], False) \<and>
   JoinNode 8300 example_handler ''node9'' ''8301'' True =
     (Returns (Some (Errorf ''could not resolve addr for node id node9'')),
      [clusterState_NodeHostname_call ''node9''])"
proof -
  have r: "clusterState_NodeHostname example_handler ''node9'' = ([], False)"
    by (simp add: example_handler_def)
  from JoinNode_unresolvable [OF r, of 8300 "''8301''" True] r show ?thesis
    by simp
qed

text \<open>
  C8. When the node resolves, the address passed to the metaWriter's \<open>Join\<close> is a host
  without any \<open>:\<close>, then \<open>:\<close>, then the port: the decimal text of the constant
  \<open>config.DefaultRaftPort\<close> when \<open>nodePort\<close> is the empty string, and \<open>nodePort\<close> itself, as
  given, otherwise.
\<close>

theorem JoinNode_port:
  assumes "clusterState_NodeHostname h node = (nodeAddr, True)"
  shows "\<exists>host. CHR '':'' \<notin> set host \<and>
           JoinNode DefaultRaftPort h node nodePort voter =
             (Returns (metaWriter_Join h node
                (host @ '':'' @ (if nodePort = [] then Sprintf_d DefaultRaftPort else nodePort))
                voter),
              [clusterState_NodeHostname_call node,
               metaWriter_Join_call node
                (host @ '':'' @ (if nodePort = [] then Sprintf_d DefaultRaftPort else nodePort))
                voter])"
proof -
  have "CHR '':'' \<notin> set (takeWhile (\<lambda>c. c \<noteq> CHR '':'') nodeAddr)"
    by (auto dest: set_takeWhileD)
  then show ?thesis
    using JoinNode_resolved [OF assms, of DefaultRaftPort nodePort voter]
    by (auto simp: Let_def)
qed

theorem JoinNode_port_witness:
  "clusterState_NodeHostname example_handler ''node1'' = (''10.0.0.1:7946'', True) \<and>
   (\<exists>host. CHR '':'' \<notin> set host \<and>
      snd (JoinNode 8300 example_handler ''node1'' [] True) =
        [clusterState_NodeHostname_call ''node1'',
         metaWriter_Join_call ''node1'' (host @ '':'' @ ''8300'') True]) \<and>
   (\<exists>host. CHR '':'' \<notin> set host \<and>
      snd (JoinNode 8300 example_handler ''node1'' ''9000'' False) =
        [clusterState_NodeHostname_call ''node1'',
         metaWriter_Join_call ''node1'' (host @ '':'' @ ''9000'') False]) \<and>
   snd (JoinNode 8300 example_handler ''node1'' [] True) =
     [clusterState_NodeHostname_call ''node1'',
      metaWriter_Join_call ''node1'' ''10.0.0.1:8300'' True] \<and>
   snd (JoinNode 8300 example_handler ''node1'' ''9000'' False) =
     [clusterState_NodeHostname_call ''node1'',
      metaWriter_Join_call ''node1'' ''10.0.0.1:9000'' False]"
proof -
  have r: "clusterState_NodeHostname example_handler ''node1'' = (''10.0.0.1:7946'', True)"
    by (simp add: example_handler_def)
  have d: "Sprintf_d 8300 = ''8300''"
    by (simp add: Sprintf_d_def decimal.simps)
  from JoinNode_port [OF r, of 8300 "[]" True] d
  have p1: "\<exists>host. CHR '':'' \<notin> set host \<and>
      snd (JoinNode 8300 example_handler ''node1'' [] True) =
        [clusterState_NodeHostname_call ''node1'',
         metaWriter_Join_call ''node1'' (host @ '':'' @ ''8300'') True]"
    by auto
  from JoinNode_port [OF r, of 8300 "''9000''" False]
  have p2: "\<exists>host. CHR '':'' \<notin> set host \<and>
      snd (JoinNode 8300 example_handler ''node1'' ''9000'' False) =
        [clusterState_NodeHostname_call ''node1'',
         metaWriter_Join_call ''node1'' (host @ '':'' @ ''9000'') False]"
    by auto
  have j1: "snd (JoinNode 8300 example_handler ''node1'' [] True) =
     [clusterState_NodeHostname_call ''node1'',
      metaWriter_Join_call ''node1'' ''10.0.0.1:8300'' True]"
    by (simp add: JoinNode_def example_handler_def d)
  have j2: "snd (JoinNode 8300 example_handler ''node1'' ''9000'' False) =
     [clusterState_NodeHostname_call ''node1'',
      metaWriter_Join_call ''node1'' ''10.0.0.1:9000'' False]"
    by (simp add: JoinNode_def example_handler_def)
  from r p1 p2 j1 j2 show ?thesis
    by (intro conjI)
qed

text \<open>
  C10. When the node resolves, the address passed to the metaWriter's \<open>Join\<close> starts with
  the part of the resolved address before its first \<open>:\<close> (all of it when it has none);
  what the resolved address carries from its first \<open>:\<close> on is dropped. Then come \<open>:\<close>
  and the chosen port. \<open>JoinNode\<close> returns what \<open>Join\<close> returns.
\<close>

theorem JoinNode_address:
  assumes "clusterState_NodeHostname h node = (nodeAddr, True)"
  shows "JoinNode DefaultRaftPort h node nodePort voter =
           (Returns (metaWriter_Join h node
              (takeWhile (\<lambda>c. c \<noteq> CHR '':'') nodeAddr @ '':'' @
                 (if nodePort = [] then Sprintf_d DefaultRaftPort else nodePort)) voter),
            [clusterState_NodeHostname_call node,
             metaWriter_Join_call node
              (takeWhile (\<lambda>c. c \<noteq> CHR '':'') nodeAddr @ '':'' @
                 (if nodePort = [] then Sprintf_d DefaultRaftPort else nodePort)) voter])"
  using JoinNode_resolved [OF assms, of DefaultRaftPort nodePort voter]
  by (simp add: Let_def)

theorem JoinNode_address_witness:
  "clusterState_NodeHostname example_handler ''node1'' = (''10.0.0.1:7946'', True) \<and>
   JoinNode 8300 example_handler ''node1'' ''8301'' True =
     (Returns None,
      [clusterState_NodeHostname_call ''node1'',
       metaWriter_Join_call ''node1'' ''10.0.0.1:8301'' True])"
proof -
  have r: "clusterState_NodeHostname example_handler ''node1'' = (''10.0.0.1:7946'', True)"
    by (simp add: example_handler_def)
  from JoinNode_address [OF r, of 8300 "''8301''" True] r show ?thesis
    by (simp add: example_handler_def)
qed

section \<open>Reading the schema\<close>

text \<open>
  C9. For a principal the authorizer accepts, \<open>Handler.GetSchema\<close> returns no error and
  the same schema value as \<open>Handler.GetSchemaSkipAuth\<close>: the result of the metaReader's
  \<open>ReadOnlySchema\<close> as the field \<open>Objects\<close>.
\<close>

theorem GetSchema_equals_GetSchemaSkipAuth:
  assumes "Authorizer h princ ''list'' ''schema/*'' = None"
  shows "fst (GetSchema h princ) = (fst (GetSchemaSkipAuth h), None) \<and>
         fst (GetSchemaSkipAuth h) = \<lparr>Objects = Some (metaReader_ReadOnlySchema h)\<rparr>"
  using assms by (simp add: GetSchema_def GetSchemaSkipAuth_def getSchema_def)

theorem GetSchema_equals_GetSchemaSkipAuth_witness:
  "Authorizer example_handler ''admin'' ''list'' ''schema/*'' = None \<and>
   fst (GetSchema example_handler ''admin'') = (\<lparr>Objects = Some article_schema\<rparr>, None) \<and>
   fst (GetSchemaSkipAuth example_handler) = \<lparr>Objects = Some article_schema\<rparr>"
proof -
  have a: "Authorizer example_handler ''admin'' ''list'' ''schema/*'' = None"
    by (simp add: example_handler_def admin_only_def)
  from GetSchema_equals_GetSchemaSkipAuth [OF a] a show ?thesis
    by (simp add: example_handler_def)
qed

end
